theory Spec2Isabelle
  imports
    Main
    "HOL-Library.Word"
    "HOL-Library.Char_ord"
    "HOL-Library.List_Lexorder"
    "HOL-Library.Infinite_Set"
begin

section \<open>The payment network and the platform, as the code sees them\<close>

text \<open>
  The repository is a set of Express handlers and an \<open>OpenPayments\<close> class that drive the
  Open Payments client library. Everything behind the library (wallet lookup, grant
  negotiation, resource creation), the random UUID source and the QR renderer is outside
  the repository: it is a parameter \<open>net\<close> that answers each call from a state of its own
  (\<open>Inl msg\<close> is a rejected promise). Every call is recorded in a trace, so that "no
  outgoing payment was created" is a statement about the trace.

  Amounts are whole numbers (\<open>int\<close>): a JavaScript number holding an integer below
  \<open>2^53\<close>, and its decimal string, are identified with that integer. Timestamps are
  milliseconds since the epoch (\<open>int\<close>) and an ISO date string is identified with its
  timestamp; a handler reads the clock once, as its parameter \<open>now\<close>, and a day is 86400000
  milliseconds. A request field that may be absent is an \<open>option\<close>; a present field has
  the type the handler expects.
\<close>

record wallet =
  wallet_id :: string
  assetCode :: string
  assetScale :: nat
  authServer :: string
  resourceServer :: string

record amount =
  amt_value :: int
  amt_assetCode :: string
  amt_assetScale :: nat

datatype access_type = IncomingPaymentAccess | QuoteAccess | OutgoingPaymentAccess

record access_item =
  acc_type :: access_type
  acc_actions :: "string list"
  acc_identifier :: "string option"
  acc_debitAmount :: "amount option"
  acc_interval :: "(string \<times> int \<times> string) option"

record interact_finish =
  finish_uri :: "string option"
  finish_nonce :: string

record grant_request =
  gr_access :: "access_item list"
  gr_interact :: "interact_finish option"

datatype grant_response =
    PendingGrant (continue_token: string) (continue_uri: string)
      (interact_redirect: string) (interact_finish: string)
  | Grant (access_token_value: string) (access_token_manage: string)

datatype incoming_payment = IncomingPayment (ip_id: string)
datatype quote = Quote (q_id: string)
datatype outgoing_payment = OutgoingPayment (op_id: string)

record incoming_args =
  ia_walletAddress :: string
  ia_incomingAmount :: amount
  ia_expiresAt :: "int option"
  ia_description :: "string option"

record quote_args =
  qa_walletAddress :: string
  qa_receiver :: string

record outgoing_args =
  oa_walletAddress :: string
  oa_quoteId :: "string option"
  oa_incomingPayment :: "string option"
  oa_debitAmount :: "amount option"
  oa_metadata :: "(string \<times> string) option"

record grant_summary =
  gs_grantId :: string
  gs_vendorId :: string
  gs_vendorName :: string
  gs_dailyLimit :: int
  gs_expiresAt :: int

record qr_content =
  qr_customerId :: string
  qr_grants :: "grant_summary list"
  qr_generatedAt :: int

record qr_data = qr_content +
  qr_signature :: string

text \<open>The calls that leave the process, with the arguments the code passes.\<close>

datatype call =
    CreateAuthenticatedClient
  | WalletAddressGet string
  | GrantRequest string grant_request
  | GrantContinue string string "string option"
  | TokenRotate string string
  | IncomingPaymentCreate string string incoming_args
  | QuoteCreate string string quote_args
  | OutgoingPaymentCreate string string outgoing_args
  | RandomUUID
  | QRCodeToDataURL qr_data

datatype reply =
    RClient
  | RWallet wallet
  | RGrant grant_response
  | RIncoming incoming_payment
  | RQuote quote
  | ROutgoing outgoing_payment
  | RString string

type_synonym 'w network = "call \<Rightarrow> 'w \<Rightarrow> (string + reply) \<times> 'w"

text \<open>
  Node's \<open>crypto\<close> digests and \<open>JSON.stringify\<close> are library code. SHA-256 and
  HMAC-SHA256 return 256 bits; \<open>base64\<close> and \<open>hex\<close> are the two text encodings the
  code asks for.
\<close>

record platform =
  sha256 :: "string \<Rightarrow> 256 word"
  base64 :: "256 word \<Rightarrow> string"
  hmac_sha256 :: "string \<Rightarrow> string \<Rightarrow> 256 word"
  hex :: "256 word \<Rightarrow> string"
  JSON_stringify :: "qr_content \<Rightarrow> string"

section \<open>Promises that may reject, over the server's state\<close>

datatype exn =
    OpenPaymentsError string
  | Error string
  | TypeError string

record ('srv, 'w) st =
  server :: 'srv
  world :: 'w
  trace :: "call list"

type_synonym ('a, 'srv, 'w) io = "('srv, 'w) st \<Rightarrow> (exn + 'a) \<times> ('srv, 'w) st"

definition return :: "'a \<Rightarrow> ('a, 'srv, 'w) io" where
  "return a s = (Inr a, s)"

definition throw :: "exn \<Rightarrow> ('a, 'srv, 'w) io" where
  "throw e s = (Inl e, s)"

definition bind :: "('a, 'srv, 'w) io \<Rightarrow> ('a \<Rightarrow> ('b, 'srv, 'w) io) \<Rightarrow> ('b, 'srv, 'w) io" where
  "bind m f s = (case m s of (Inl e, s') \<Rightarrow> (Inl e, s') | (Inr a, s') \<Rightarrow> f a s')"

definition modify :: "('srv \<Rightarrow> 'srv) \<Rightarrow> (unit, 'srv, 'w) io" where
  "modify f s = (Inr (), s\<lparr>server := f (server s)\<rparr>)"

definition ext :: "'w network \<Rightarrow> call \<Rightarrow> (reply, 'srv, 'w) io" where
  "ext net c s =
     ((case fst (net c (world s)) of
         Inl msg \<Rightarrow> Inl (OpenPaymentsError msg)
       | Inr r \<Rightarrow> Inr r),
      s\<lparr>world := snd (net c (world s)), trace := trace s @ [c]\<rparr>)"

text \<open>
  The typed wrappers of the client library. The library validates a response against the
  resource's schema, so a reply of another shape is a rejection.
\<close>

definition malformed :: exn where
  "malformed = OpenPaymentsError ''unexpected response''"

definition createAuthenticatedClient :: "'w network \<Rightarrow> (unit, 'srv, 'w) io" where
  "createAuthenticatedClient net =
     bind (ext net CreateAuthenticatedClient)
       (\<lambda>r. case r of RClient \<Rightarrow> return () | _ \<Rightarrow> throw malformed)"

definition walletAddress_get :: "'w network \<Rightarrow> string \<Rightarrow> (wallet, 'srv, 'w) io" where
  "walletAddress_get net url =
     bind (ext net (WalletAddressGet url))
       (\<lambda>r. case r of RWallet w \<Rightarrow> return w | _ \<Rightarrow> throw malformed)"

definition grant_request :: "'w network \<Rightarrow> string \<Rightarrow> grant_request \<Rightarrow> (grant_response, 'srv, 'w) io" where
  "grant_request net url body =
     bind (ext net (GrantRequest url body))
       (\<lambda>r. case r of RGrant g \<Rightarrow> return g | _ \<Rightarrow> throw malformed)"

definition grant_continue ::
  "'w network \<Rightarrow> string \<Rightarrow> string \<Rightarrow> string option \<Rightarrow> (grant_response, 'srv, 'w) io" where
  "grant_continue net tok url interact_ref =
     bind (ext net (GrantContinue tok url interact_ref))
       (\<lambda>r. case r of RGrant g \<Rightarrow> return g | _ \<Rightarrow> throw malformed)"

definition token_rotate :: "'w network \<Rightarrow> string \<Rightarrow> string \<Rightarrow> (grant_response, 'srv, 'w) io" where
  "token_rotate net tok url =
     bind (ext net (TokenRotate tok url))
       (\<lambda>r. case r of RGrant g \<Rightarrow> return g | _ \<Rightarrow> throw malformed)"

definition incomingPayment_create ::
  "'w network \<Rightarrow> string \<Rightarrow> string \<Rightarrow> incoming_args \<Rightarrow> (incoming_payment, 'srv, 'w) io" where
  "incomingPayment_create net url tok args =
     bind (ext net (IncomingPaymentCreate url tok args))
       (\<lambda>r. case r of RIncoming p \<Rightarrow> return p | _ \<Rightarrow> throw malformed)"

definition quote_create ::
  "'w network \<Rightarrow> string \<Rightarrow> string \<Rightarrow> quote_args \<Rightarrow> (quote, 'srv, 'w) io" where
  "quote_create net url tok args =
     bind (ext net (QuoteCreate url tok args))
       (\<lambda>r. case r of RQuote q \<Rightarrow> return q | _ \<Rightarrow> throw malformed)"

definition outgoingPayment_create ::
  "'w network \<Rightarrow> string \<Rightarrow> string \<Rightarrow> outgoing_args \<Rightarrow> (outgoing_payment, 'srv, 'w) io" where
  "outgoingPayment_create net url tok args =
     bind (ext net (OutgoingPaymentCreate url tok args))
       (\<lambda>r. case r of ROutgoing p \<Rightarrow> return p | _ \<Rightarrow> throw malformed)"

definition randomUUID :: "'w network \<Rightarrow> (string, 'srv, 'w) io" where
  "randomUUID net =
     bind (ext net RandomUUID)
       (\<lambda>r. case r of RString u \<Rightarrow> return u | _ \<Rightarrow> throw malformed)"

definition QRCode_toDataURL :: "'w network \<Rightarrow> qr_data \<Rightarrow> (string, 'srv, 'w) io" where
  "QRCode_toDataURL net d =
     bind (ext net (QRCodeToDataURL d))
       (\<lambda>r. case r of RString u \<Rightarrow> return u | _ \<Rightarrow> throw malformed)"

text \<open>\<open>isPendingGrant\<close>, and \<open>grant.access_token.value\<close>, which faults on a response
  that carries no access token.\<close>

fun isPendingGrant :: "grant_response \<Rightarrow> bool" where
  "isPendingGrant (PendingGrant _ _ _ _) = True"
| "isPendingGrant (Grant _ _) = False"

definition access_token_of :: "grant_response \<Rightarrow> (string, 'srv, 'w) io" where
  "access_token_of g =
     (case g of
        Grant v _ \<Rightarrow> return v
      | PendingGrant _ _ _ _ \<Rightarrow>
          throw (TypeError ''Cannot read properties of undefined (reading value)''))"

text \<open>JavaScript truthiness of a string field and of a number field.\<close>

definition truthy :: "string option \<Rightarrow> bool" where
  "truthy x = (case x of None \<Rightarrow> False | Some s \<Rightarrow> s \<noteq> [])"

definition truthy_num :: "int option \<Rightarrow> bool" where
  "truthy_num x = (case x of None \<Rightarrow> False | Some n \<Rightarrow> n \<noteq> 0)"

text \<open>A JavaScript \<open>Map\<close> keeps insertion order; \<open>set\<close> on a present key keeps its place.\<close>

fun map_set :: "string \<Rightarrow> 'v \<Rightarrow> (string \<times> 'v) list \<Rightarrow> (string \<times> 'v) list" where
  "map_set k v [] = [(k, v)]"
| "map_set k v ((k', v') # m) = (if k = k' then (k, v) # m else (k', v') # map_set k v m)"

definition map_get :: "(string \<times> 'v) list \<Rightarrow> string \<Rightarrow> 'v option" where
  "map_get m k = map_of m k"

definition map_delete :: "string \<Rightarrow> (string \<times> 'v) list \<Rightarrow> (string \<times> 'v) list" where
  "map_delete k m = filter (\<lambda>kv. fst kv \<noteq> k) m"

definition map_values :: "(string \<times> 'v) list \<Rightarrow> 'v list" where
  "map_values m = map snd m"

section \<open>open-payments.ts\<close>

definition getAuthenticatedClient :: "'w network \<Rightarrow> (unit, 'srv, 'w) io" where
  "getAuthenticatedClient net = createAuthenticatedClient net"

definition dollar_to_https :: "string \<Rightarrow> string" where
  "dollar_to_https a = (case a of c # rest \<Rightarrow> if c = CHR ''$'' then ''https://'' @ rest else a | [] \<Rightarrow> a)"

definition getWalletAddressInfo :: "'w network \<Rightarrow> string \<Rightarrow> (string \<times> wallet, 'srv, 'w) io" where
  "getWalletAddressInfo net walletAddress =
     (let walletAddress = dollar_to_https walletAddress in
      bind (walletAddress_get net walletAddress)
        (\<lambda>walletAddressDetails. return (walletAddress, walletAddressDetails)))"

definition createIncomingPayment ::
  "'w network \<Rightarrow> int \<Rightarrow> int \<Rightarrow> wallet \<Rightarrow> (incoming_payment, 'srv, 'w) io" where
  "createIncomingPayment net now val walletAddressDetails =
     bind (grant_request net (authServer walletAddressDetails)
             \<lparr>gr_access = [\<lparr>acc_type = IncomingPaymentAccess,
                            acc_actions = [''read'', ''create'', ''complete''],
                            acc_identifier = None, acc_debitAmount = None,
                            acc_interval = None\<rparr>],
              gr_interact = None\<rparr>)
       (\<lambda>grant.
          if isPendingGrant grant then throw (Error ''Expected non-interactive grant'')
          else
            incomingPayment_create net (resourceServer walletAddressDetails)
              (access_token_value grant)
              \<lparr>ia_walletAddress = wallet_id walletAddressDetails,
               ia_incomingAmount =
                 \<lparr>amt_value = val,
                  amt_assetCode = assetCode walletAddressDetails,
                  amt_assetScale = assetScale walletAddressDetails\<rparr>,
               ia_expiresAt = Some (now + 60000 * 30),
               ia_description = None\<rparr>)"

definition createQuote :: "'w network \<Rightarrow> string \<Rightarrow> wallet \<Rightarrow> (quote, 'srv, 'w) io" where
  "createQuote net incomingPaymentUrl walletAddressDetails =
     bind (grant_request net (authServer walletAddressDetails)
             \<lparr>gr_access = [\<lparr>acc_type = QuoteAccess,
                            acc_actions = [''create'', ''read'', ''read-all''],
                            acc_identifier = None, acc_debitAmount = None,
                            acc_interval = None\<rparr>],
              gr_interact = None\<rparr>)
       (\<lambda>grant.
          if isPendingGrant grant then throw (Error ''Expected non-interactive grant'')
          else
            quote_create net (resourceServer walletAddressDetails) (access_token_value grant)
              \<lparr>qa_walletAddress = wallet_id walletAddressDetails,
               qa_receiver = incomingPaymentUrl\<rparr>)"

text \<open>The \<open>interval\<close> limit of a subscription, the text
  \<open>R<payments>/<dateNow>/<duration>\<close>, is kept as its three parts. The nonce of the
  interaction is drawn while the request is built, before the request is sent.\<close>

record pending_grant_input =
  pgi_debitAmount :: "amount option"
  pgi_type :: "string option"
  pgi_payments :: string
  pgi_duration :: "string option"
  pgi_redirectUrl :: "string option"

definition createOutgoingPaymentPendingGrant ::
  "'w network \<Rightarrow> int \<Rightarrow> pending_grant_input \<Rightarrow> wallet \<Rightarrow> (grant_response, 'srv, 'w) io" where
  "createOutgoingPaymentPendingGrant net dateNow input walletAddressDetails =
     bind (randomUUID net)
       (\<lambda>nonce.
          bind (grant_request net (authServer walletAddressDetails)
                  \<lparr>gr_access =
                     [\<lparr>acc_type = OutgoingPaymentAccess,
                       acc_actions = [''create''],
                       acc_identifier = Some (wallet_id walletAddressDetails),
                       acc_debitAmount = pgi_debitAmount input,
                       acc_interval =
                         (if pgi_type input = Some ''new_subscription''
                          then Some (pgi_payments input, dateNow,
                                 (case pgi_duration input of None \<Rightarrow> ''PT10M'' | Some d \<Rightarrow> d))
                          else None)\<rparr>],
                   gr_interact =
                     Some \<lparr>finish_uri = pgi_redirectUrl input, finish_nonce = nonce\<rparr>\<rparr>)
            (\<lambda>grant.
               if \<not> isPendingGrant grant then throw (Error ''Expected interactive grant'')
               else return grant))"

record outgoing_input =
  oi_senderWalletAddress :: string
  oi_continueAccessToken :: string
  oi_quoteId :: "string option"
  oi_interactRef :: "string option"
  oi_continueUri :: string

definition createOutgoingPayment ::
  "'w network \<Rightarrow> outgoing_input \<Rightarrow> wallet \<Rightarrow> (outgoing_payment, 'srv, 'w) io" where
  "createOutgoingPayment net input walletAddressDetails =
     (let walletAddress = dollar_to_https (oi_senderWalletAddress input) in
      bind (grant_continue net (oi_continueAccessToken input) (oi_continueUri input)
              (oi_interactRef input))
        (\<lambda>grant.
           bind (access_token_of grant)
             (\<lambda>tok.
                outgoingPayment_create net (resourceServer walletAddressDetails) tok
                  \<lparr>oa_walletAddress = walletAddress,
                   oa_quoteId = oi_quoteId input,
                   oa_incomingPayment = None,
                   oa_debitAmount = None,
                   oa_metadata = None\<rparr>)))"

section \<open>src/server/cache.ts: class OpenPayments\<close>

text \<open>
  The file holds the \<open>OpenPayments\<close> class. Its \<open>Cache\<close> collaborator is declared in a
  module that is not part of the sources, so \<open>cache.get\<close> is the parameter \<open>cache_get\<close>
  (\<open>None\<close> for a missing or expired entry). The two template literals of the file are
  read as template literals.
\<close>

record instant_pay_data =
  ipd_walletAddressUrl :: string
  ipd_clientNonce :: string
  ipd_interactNonce :: string
  ipd_continueUri :: string
  ipd_continueToken :: string

record token_info =
  ti_accessToken :: string
  ti_manageUrl :: string

record verify_params =
  vp_interactRef :: string
  vp_receivedHash :: string
  vp_clientNonce :: string
  vp_interactNonce :: string
  vp_walletAddressUrl :: string

fun isGrant :: "grant_response \<Rightarrow> bool" where
  "isGrant (Grant _ _) = True"
| "isGrant (PendingGrant _ _ _ _) = False"

definition continueGrant ::
  "'w network \<Rightarrow> string \<Rightarrow> string \<Rightarrow> string \<Rightarrow> (token_info, 'srv, 'w) io" where
  "continueGrant net accessToken url interactRef =
     bind (grant_continue net accessToken url (Some interactRef))
       (\<lambda>continuation.
          if \<not> isGrant continuation then throw (Error ''Expected grant response'')
          else return \<lparr>ti_accessToken = access_token_value continuation,
                       ti_manageUrl = access_token_manage continuation\<rparr>)"

text \<open>The string that is hashed: the three values, each followed by a line feed, then
  the authorization server's URL and a slash.\<close>

definition hash_data :: "string \<Rightarrow> string \<Rightarrow> string \<Rightarrow> string \<Rightarrow> string" where
  "hash_data clientNonce interactNonce interactRef authSrv =
     clientNonce @ [CHR 0x0A] @ interactNonce @ [CHR 0x0A] @ interactRef @ [CHR 0x0A]
       @ authSrv @ ''/''"

definition calculatedHash :: "platform \<Rightarrow> string \<Rightarrow> string \<Rightarrow> string \<Rightarrow> string \<Rightarrow> string" where
  "calculatedHash pf clientNonce interactNonce interactRef authSrv =
     base64 pf (sha256 pf (hash_data clientNonce interactNonce interactRef authSrv))"

definition verifyInteractionHash ::
  "platform \<Rightarrow> 'w network \<Rightarrow> verify_params \<Rightarrow> (unit, 'srv, 'w) io" where
  "verifyInteractionHash pf net params =
     bind (walletAddress_get net (vp_walletAddressUrl params))
       (\<lambda>walletAddress.
          if calculatedHash pf (vp_clientNonce params) (vp_interactNonce params)
               (vp_interactRef params) (authServer walletAddress)
             \<noteq> vp_receivedHash params
          then throw (Error ''Hash verification failed'')
          else return ())"

definition completeInstantPaySetup ::
  "platform \<Rightarrow> 'w network \<Rightarrow> (string \<Rightarrow> instant_pay_data option)
     \<Rightarrow> string \<Rightarrow> string \<Rightarrow> string \<Rightarrow> (token_info, 'srv, 'w) io" where
  "completeInstantPaySetup pf net cache_get identifier interactRef hash =
     (case cache_get identifier of
        None \<Rightarrow> throw (TypeError ''Cannot read properties of undefined (reading clientNonce)'')
      | Some InstantPayData \<Rightarrow>
          bind (verifyInteractionHash pf net
                  \<lparr>vp_interactRef = interactRef,
                   vp_receivedHash = hash,
                   vp_clientNonce = ipd_clientNonce InstantPayData,
                   vp_interactNonce = ipd_interactNonce InstantPayData,
                   vp_walletAddressUrl = ipd_walletAddressUrl InstantPayData\<rparr>)
            (\<lambda>_. continueGrant net (ipd_continueToken InstantPayData)
                   (ipd_continueUri InstantPayData) interactRef))"

definition createVendorIncomingPayment ::
  "'w network \<Rightarrow> wallet \<Rightarrow> int \<Rightarrow> string \<Rightarrow> (incoming_payment, 'srv, 'w) io" where
  "createVendorIncomingPayment net vendorWallet amt description =
     bind (grant_request net (wallet_id vendorWallet)
             \<lparr>gr_access = [\<lparr>acc_type = IncomingPaymentAccess,
                            acc_actions = [''read-all'', ''create''],
                            acc_identifier = None, acc_debitAmount = None,
                            acc_interval = None\<rparr>],
              gr_interact = None\<rparr>)
       (\<lambda>grant.
          if isPendingGrant grant
          then throw (Error ''Expected non-interactive grant for incoming payment'')
          else
            incomingPayment_create net (wallet_id vendorWallet) (access_token_value grant)
              \<lparr>ia_walletAddress = wallet_id vendorWallet,
               ia_incomingAmount =
                 \<lparr>amt_value = amt * 10 ^ assetScale vendorWallet,
                  amt_assetCode = assetCode vendorWallet,
                  amt_assetScale = assetScale vendorWallet\<rparr>,
               ia_expiresAt = None,
               ia_description = Some description\<rparr>)"

definition catch_all :: "('a, 'srv, 'w) io \<Rightarrow> exn \<Rightarrow> ('a, 'srv, 'w) io" where
  "catch_all m e s = (case m s of (Inl _, s') \<Rightarrow> (Inl e, s') | (Inr a, s') \<Rightarrow> (Inr a, s'))"

definition makeInstantPayment ::
  "'w network \<Rightarrow> string \<Rightarrow> string \<Rightarrow> string \<Rightarrow> string \<Rightarrow> int \<Rightarrow> string \<Rightarrow> (unit, 'srv, 'w) io" where
  "makeInstantPayment net accessToken manageUrl vendorPaymentPointer senderPaymentPointer
       amt description =
     bind (walletAddress_get net senderPaymentPointer)
       (\<lambda>senderWallet.
     bind (walletAddress_get net vendorPaymentPointer)
       (\<lambda>vendorWallet.
     bind (createVendorIncomingPayment net vendorWallet amt description)
       (\<lambda>incomingPayment.
     bind (token_rotate net accessToken manageUrl)
       (\<lambda>freshGrant.
     bind (access_token_of freshGrant)
       (\<lambda>tok.
     bind (catch_all
             (outgoingPayment_create net (wallet_id senderWallet) tok
                \<lparr>oa_walletAddress = wallet_id senderWallet,
                 oa_quoteId = None,
                 oa_incomingPayment = Some (ip_id incomingPayment),
                 oa_debitAmount =
                   Some \<lparr>amt_value = amt * 10 ^ assetScale senderWallet,
                         amt_assetCode = assetCode senderWallet,
                         amt_assetScale = assetScale senderWallet\<rparr>,
                 oa_metadata = Some (description, ''instant'')\<rparr>)
             (Error (''One click buy spending limit exceeded. ''
                @ ''Please setup one click buy again.'')))
       (\<lambda>_. return ()))))))"

section \<open>FinalSolution-main/server.ts: the stores and the responses\<close>

text \<open>
  The file holds two Express applications one after the other. Each declares
  \<open>customers\<close>, \<open>vendors\<close> and \<open>grants\<close> maps of the same shape (the second one's customers
  carry an optional phone and email that no handler below reads), so one record serves
  both. \<open>outgoingpaymentgrantaccessToken\<close> is the module-level variable of line 5.
  A handler runs from its first line to its response without another request in between.
\<close>

record session =
  ses_quote :: quote
  ses_grantExpiry :: int
  ses_incomingPaymentUrl :: string

record party =
  party_id :: string
  party_name :: string
  party_walletAddress :: string

record grant_data =
  continueAccessToken :: string
  continueUri :: string
  interactRef :: "string option"
  senderWalletAddress :: string

datatype grant_status = Active | Expired | Suspended

record customer_grant =
  grant_id :: string
  customerId :: string
  vendorId :: string
  vendorName :: string
  dailyLimit :: int
  spentToday :: int
  expiresAt :: int
  createdAt :: int
  grantData :: grant_data
  status :: grant_status

record server_state =
  quoteCache :: "(string \<times> session) list"
  customers :: "(string \<times> party) list"
  vendors :: "(string \<times> party) list"
  grants :: "(string \<times> customer_grant) list"
  outgoingpaymentgrantaccessToken :: "string option"

record process_env =
  QR_SIGNING_SECRET :: "string option"
  BASE_URL :: "string option"

text \<open>
  The JSON bodies the handlers below answer with: \<open>{error}\<close>, \<open>{error, message}\<close>, a
  plain text, and one constructor for each success answer with the values it carries. The
  \<open>success: true\<close> flags and the echo \<open>received: req.body\<close> of two validation answers
  are left out.
\<close>

datatype body =
    ErrorBody string
  | ErrorMessage string string
  | TextBody string
  | SessionStarted quote string int
  | PaymentApproved outgoing_payment
  | VendorAuthorized string string string int int string
  | PaymentProcessed incoming_payment quote outgoing_payment string
  | GrantCreated string string int int string
  | QRCodeIssued string "grant_summary list" int

type_synonym response = "nat \<times> body"

type_synonym 'w handler_state = "(server_state, 'w) st"

definition try_catch ::
  "(response, 'srv, 'w) io \<Rightarrow> (exn \<Rightarrow> response) \<Rightarrow> ('srv, 'w) st \<Rightarrow> response \<times> ('srv, 'w) st" where
  "try_catch m h s = (case m s of (Inl e, s') \<Rightarrow> (h e, s') | (Inr r, s') \<Rightarrow> (r, s'))"

fun message :: "exn \<Rightarrow> string" where
  "message (OpenPaymentsError m) = m"
| "message (Error m) = m"
| "message (TypeError m) = m"

text \<open>The value of a field that the validation has found present.\<close>

definition field :: "string option \<Rightarrow> string" where
  "field x = (case x of Some v \<Rightarrow> v | None \<Rightarrow> [])"

definition num_field :: "int option \<Rightarrow> int" where
  "num_field x = (case x of Some v \<Rightarrow> v | None \<Rightarrow> 0)"

definition days :: "int \<Rightarrow> int" where
  "days n = n * 86400000"

section \<open>server.ts, first application: payment sessions\<close>





section \<open>server.ts, first application: vendor authorization and payment processing\<close>

text \<open>The handlers pass \<open>createOutgoingPaymentPendingGrant\<close> a \<open>receiveAmount\<close> as well;
  that function reads it into a local it never uses, so the input record has no such
  field.\<close>

record authorize_req =
  av_vendorId :: "string option"
  av_spendingLimit :: "int option"
  av_redirectUrl :: "string option"

definition new_grant ::
  "string \<Rightarrow> string \<Rightarrow> string \<Rightarrow> string \<Rightarrow> int \<Rightarrow> int \<Rightarrow> int \<Rightarrow> grant_response \<Rightarrow> string
     \<Rightarrow> customer_grant" where
  "new_grant grantId cid vid vname lim expires now pendingGrant senderWallet =
     \<lparr>grant_id = grantId, customerId = cid, vendorId = vid, vendorName = vname,
      dailyLimit = lim, spentToday = 0, expiresAt = expires, createdAt = now,
      grantData = \<lparr>continueAccessToken = continue_token pendingGrant,
                   continueUri = continue_uri pendingGrant,
                   interactRef = None,
                   senderWalletAddress = senderWallet\<rparr>,
      status = Active\<rparr>"

definition authorize_vendor ::
  "'w network \<Rightarrow> int \<Rightarrow> string \<Rightarrow> authorize_req \<Rightarrow> 'w handler_state
     \<Rightarrow> response \<times> 'w handler_state" where
  "authorize_vendor net now cid req s =
     (if \<not> truthy (av_vendorId req) \<or> \<not> truthy_num (av_spendingLimit req)
         \<or> \<not> truthy (av_redirectUrl req)
      then ((400, ErrorMessage ''Validation failed''
               ''vendorId, spendingLimit, and redirectUrl are required''), s)
      else
        (case map_get (customers (server s)) cid of
           None \<Rightarrow> ((404, ErrorBody ''Customer not found''), s)
         | Some customer \<Rightarrow>
        (case map_get (vendors (server s)) (field (av_vendorId req)) of
           None \<Rightarrow> ((404, ErrorBody ''Vendor not found''), s)
         | Some vendor \<Rightarrow>
             try_catch
               (bind (getAuthenticatedClient net) (\<lambda>client.
                bind (getWalletAddressInfo net (party_walletAddress customer))
                  (\<lambda>(_, walletAddressDetails).
                bind (createOutgoingPaymentPendingGrant net now
                        \<lparr>pgi_debitAmount =
                           Some \<lparr>amt_value = num_field (av_spendingLimit req) * 100,
                                 amt_assetCode = ''ZAR'', amt_assetScale = 2\<rparr>,
                         pgi_type = Some ''multi-payment'',
                         pgi_payments = [],
                         pgi_duration = None,
                         pgi_redirectUrl = av_redirectUrl req\<rparr>
                        walletAddressDetails) (\<lambda>pendingGrant.
                bind (randomUUID net) (\<lambda>grantId.
                bind (modify (\<lambda>srv. srv\<lparr>grants :=
                         map_set grantId
                           (new_grant grantId cid (field (av_vendorId req)) (party_name vendor)
                              (num_field (av_spendingLimit req)) (now + days 30) now
                              pendingGrant (party_walletAddress customer))
                           (grants srv)\<rparr>)) (\<lambda>_.
                return (201, VendorAuthorized grantId (party_id vendor) (party_name vendor)
                          (num_field (av_spendingLimit req)) (now + days 30)
                          (interact_redirect pendingGrant))))))))
               (\<lambda>err. (500, ErrorMessage ''Failed to authorize vendor'' (message err))) s)))"

record process_payment_req =
  pp_customerWalletAddress :: "string option"
  pp_receiverWalletAddress :: "string option"
  pp_continueAccessToken :: "string option"
  pp_continueUri :: "string option"
  pp_interactRef :: "string option"
  pp_spendAmount :: "int option"

text \<open>Lines 597 to 609 of the handler: the grant is continued only while the
  module-level token is still falsy; the token the request goes on with is read from the
  module-level variable.\<close>

definition continue_unless_token ::
  "'w network \<Rightarrow> process_payment_req \<Rightarrow> (string, server_state, 'w) io" where
  "continue_unless_token net req s =
     (if \<not> truthy (outgoingpaymentgrantaccessToken (server s))
      then
        bind (grant_continue net (field (pp_continueAccessToken req)) (field (pp_continueUri req))
                (pp_interactRef req)) (\<lambda>grant.
        bind (access_token_of grant) (\<lambda>v.
        bind (modify (\<lambda>srv. srv\<lparr>outgoingpaymentgrantaccessToken := Some v\<rparr>)) (\<lambda>_.
        return v))) s
      else return (field (outgoingpaymentgrantaccessToken (server s))) s)"

definition process_payment ::
  "'w network \<Rightarrow> int \<Rightarrow> process_payment_req \<Rightarrow> 'w handler_state \<Rightarrow> response \<times> 'w handler_state" where
  "process_payment net now req s =
     (if \<not> truthy (pp_receiverWalletAddress req) \<or> \<not> truthy (pp_continueAccessToken req)
         \<or> \<not> truthy (pp_continueUri req) \<or> \<not> truthy_num (pp_spendAmount req)
      then ((400, ErrorMessage ''Validation failed''
               (''receiverWalletAddress, continueAccessToken, ''
                  @ ''continueUri and spendAmount are required'')), s)
      else
        try_catch
          (bind (getAuthenticatedClient net) (\<lambda>client.
           bind (getWalletAddressInfo net (field (pp_receiverWalletAddress req)))
             (\<lambda>(_, receiverWalletDetails).
           bind (if truthy (pp_customerWalletAddress req)
                 then bind (getWalletAddressInfo net (field (pp_customerWalletAddress req)))
                        (\<lambda>(_, d). return (Some d))
                 else return None) (\<lambda>customerWalletDetails.
           bind (continue_unless_token net req) (\<lambda>token.
           bind (createIncomingPayment net now (num_field (pp_spendAmount req) * 100)
                   receiverWalletDetails) (\<lambda>incomingPayment.
           bind (createQuote net (ip_id incomingPayment)
                   (case customerWalletDetails of
                      Some d \<Rightarrow> d | None \<Rightarrow> receiverWalletDetails)) (\<lambda>quote.
           (case customerWalletDetails of
              None \<Rightarrow>
                throw (TypeError ''Cannot read properties of undefined (reading resourceServer)'')
            | Some customerWallet \<Rightarrow>
                bind (outgoingPayment_create net (resourceServer customerWallet) token
                        \<lparr>oa_walletAddress = wallet_id customerWallet,
                         oa_quoteId = None,
                         oa_incomingPayment = Some (ip_id incomingPayment),
                         oa_debitAmount =
                           Some \<lparr>amt_value = num_field (pp_spendAmount req) * 100,
                                 amt_assetCode = assetCode customerWallet,
                                 amt_assetScale = assetScale customerWallet\<rparr>,
                         oa_metadata = None\<rparr>) (\<lambda>outgoingPayment.
                return (201, PaymentProcessed incomingPayment quote outgoingPayment
                               token))))))))))
          (\<lambda>err. (500, ErrorMessage ''Failed to process payment'' (message err))) s)"

section \<open>server.ts, second application: customer grants and the signed QR bundle\<close>



definition without_signature :: "qr_data \<Rightarrow> qr_content" where
  "without_signature qrData =
     \<lparr>qr_customerId = qr_customerId qrData, qr_grants = qr_grants qrData,
      qr_generatedAt = qr_generatedAt qrData\<rparr>"


definition with_signature :: "qr_content \<Rightarrow> string \<Rightarrow> qr_data" where
  "with_signature c signature =
     \<lparr>qr_customerId = qr_customerId c, qr_grants = qr_grants c,
      qr_generatedAt = qr_generatedAt c, qr_signature = signature\<rparr>"

record create_grant_req =
  cg_vendorId :: "string option"
  cg_dailyLimit :: "int option"
  cg_expirationDays :: "int option"

definition existingGrant :: "string \<Rightarrow> string \<Rightarrow> server_state \<Rightarrow> customer_grant option" where
  "existingGrant cid vid srv =
     find (\<lambda>g. customerId g = cid \<and> vendorId g = vid \<and> status g = Active)
       (map_values (grants srv))"

definition create_grant ::
  "process_env \<Rightarrow> 'w network \<Rightarrow> int \<Rightarrow> string \<Rightarrow> create_grant_req \<Rightarrow> 'w handler_state
     \<Rightarrow> response \<times> 'w handler_state" where
  "create_grant env net now cid req s =
     try_catch
       (case map_get (customers (server s)) cid of
          None \<Rightarrow> return (404, ErrorBody ''Customer not found'')
        | Some customer \<Rightarrow>
       (case (case cg_vendorId req of
                None \<Rightarrow> None | Some v \<Rightarrow> map_get (vendors (server s)) v) of
          None \<Rightarrow> return (404, ErrorBody ''Vendor not found'')
        | Some vendor \<Rightarrow>
            if \<not> truthy_num (cg_dailyLimit req) \<or> num_field (cg_dailyLimit req) \<le> 0
            then return (400, ErrorBody ''Valid daily limit is required'')
            else if existingGrant cid (field (cg_vendorId req)) (server s) \<noteq> None
            then return (400, ErrorBody ''Active grant already exists for this vendor'')
            else
              bind (getAuthenticatedClient net) (\<lambda>client.
              bind (getWalletAddressInfo net (party_walletAddress customer))
                (\<lambda>(_, walletAddressDetails).
              bind (createOutgoingPaymentPendingGrant net now
                      \<lparr>pgi_debitAmount =
                         Some \<lparr>amt_value = num_field (cg_dailyLimit req) * 100,
                               amt_assetCode = ''ZAR'', amt_assetScale = 2\<rparr>,
                       pgi_type = None,
                       pgi_payments = [],
                       pgi_duration = None,
                       pgi_redirectUrl =
                         Some ((case BASE_URL env of None \<Rightarrow> ''undefined'' | Some b \<Rightarrow> b)
                                 @ ''/api/grants/callback'')\<rparr>
                      walletAddressDetails) (\<lambda>pendingGrant.
              bind (randomUUID net) (\<lambda>grantId.
              bind (modify (\<lambda>srv. srv\<lparr>grants :=
                       map_set grantId
                         (new_grant grantId cid (field (cg_vendorId req)) (party_name vendor)
                            (num_field (cg_dailyLimit req))
                            (now + days (case cg_expirationDays req of
                                           None \<Rightarrow> 30 | Some d \<Rightarrow> d))
                            now pendingGrant (party_walletAddress customer))
                         (grants srv)\<rparr>)) (\<lambda>_.
              return (201, GrantCreated grantId (party_name vendor)
                        (num_field (cg_dailyLimit req))
                        (now + days (case cg_expirationDays req of
                                       None \<Rightarrow> 30 | Some d \<Rightarrow> d))
                        (interact_redirect pendingGrant)))))))))
       (\<lambda>error. (500, ErrorBody ''Failed to create grant'')) s"




section \<open>An example environment\<close>

text \<open>
  A small payment network and platform on which the handlers can be run: every call
  succeeds, the wallet \<open>https://w.example/eur\<close> has asset scale 3 and every other wallet
  scale 2, and the state of the network counts the calls made. The example digests are
  stand-ins that separate the inputs used below; they are not SHA-256.
\<close>

definition example_wallet :: "string \<Rightarrow> wallet" where
  "example_wallet url =
     \<lparr>wallet_id = url, assetCode = ''ZAR'',
      assetScale = (if url = ''https://w.example/eur'' then 3 else 2),
      authServer = ''https://auth.example'',
      resourceServer = ''https://rs.example''\<rparr>"

definition example_net :: "nat network" where
  "example_net c n =
     ((case c of
         CreateAuthenticatedClient \<Rightarrow> Inr RClient
       | WalletAddressGet url \<Rightarrow> Inr (RWallet (example_wallet url))
       | GrantRequest url body \<Rightarrow>
           (case gr_interact body of
              None \<Rightarrow> Inr (RGrant (Grant ''resource-token'' ''manage''))
            | Some f \<Rightarrow>
                Inr (RGrant (PendingGrant (''c'' @ replicate n (CHR ''i'')) ''continue''
                       ''redirect'' ''finish'')))
       | GrantContinue tok url ref \<Rightarrow> Inr (RGrant (Grant (''access-'' @ tok) ''manage''))
       | TokenRotate tok url \<Rightarrow> Inr (RGrant (Grant (''rotated-'' @ tok) url))
       | IncomingPaymentCreate url tok args \<Rightarrow> Inr (RIncoming (IncomingPayment ''incoming-1''))
       | QuoteCreate url tok args \<Rightarrow> Inr (RQuote (Quote ''quote-1''))
       | OutgoingPaymentCreate url tok args \<Rightarrow> Inr (ROutgoing (OutgoingPayment ''outgoing-1''))
       | RandomUUID \<Rightarrow> Inr (RString (''uuid-'' @ replicate n (CHR ''x'')))
       | QRCodeToDataURL d \<Rightarrow> Inr (RString ''data:image/png'')),
      Suc n)"

definition example_platform :: platform where
  "example_platform =
     \<lparr>sha256 = (\<lambda>s. of_nat (length s)),
      base64 = (\<lambda>w. replicate (unat w) (CHR ''A'')),
      hmac_sha256 = (\<lambda>k m. of_nat (length k + length m)),
      hex = (\<lambda>w. replicate (unat w) (CHR ''f'')),
      JSON_stringify =
        (\<lambda>c. qr_customerId c @ concat (map gs_grantId (qr_grants c))
                @ replicate (nat (sum_list (map gs_dailyLimit (qr_grants c)))) (CHR ''1''))\<rparr>"


definition example_cache :: "string \<Rightarrow> instant_pay_data option" where
  "example_cache k =
     (if k = ''id-1''
      then Some \<lparr>ipd_walletAddressUrl = ''https://w.example/alice'',
                 ipd_clientNonce = ''n1'', ipd_interactNonce = ''n2'',
                 ipd_continueUri = ''continue'', ipd_continueToken = ''ct''\<rparr>
      else None)"

definition start :: "'srv \<Rightarrow> 'w \<Rightarrow> ('srv, 'w) st" where
  "start srv w = \<lparr>server = srv, world = w, trace = []\<rparr>"

definition example_grant :: "string \<Rightarrow> string \<Rightarrow> int \<Rightarrow> string \<Rightarrow> customer_grant" where
  "example_grant gid vid lim tok =
     \<lparr>grant_id = gid, customerId = ''customer1'', vendorId = vid, vendorName = ''Coffee Shop'',
      dailyLimit = lim, spentToday = 0, expiresAt = 1000, createdAt = 0,
      grantData = \<lparr>continueAccessToken = tok, continueUri = ''continue'',
                   interactRef = Some ''ref'',
                   senderWalletAddress = ''https://w.example/alice''\<rparr>,
      status = Active\<rparr>"

definition example_server :: server_state where
  "example_server =
     \<lparr>quoteCache = [],
      customers = [(''customer1'', \<lparr>party_id = ''customer1'', party_name = ''John Doe'',
                      party_walletAddress = ''https://w.example/alice''\<rparr>)],
      vendors = [(''vendor1'', \<lparr>party_id = ''vendor1'', party_name = ''Coffee Shop'',
                    party_walletAddress = ''https://w.example/bob''\<rparr>)],
      grants = [],
      outgoingpaymentgrantaccessToken = None\<rparr>"

definition example_ledger :: server_state where
  "example_ledger =
     example_server\<lparr>grants :=
       [(''g-b'', example_grant ''g-b'' ''vendor1'' 50 ''ct-A''),
        (''g-a'', example_grant ''g-a'' ''vendor2'' 20 ''ct-B'')]\<rparr>"

definition example_payment ::
  "string option \<Rightarrow> string \<Rightarrow> string \<Rightarrow> int \<Rightarrow> process_payment_req" where
  "example_payment customer receiver tok amt =
     \<lparr>pp_customerWalletAddress = customer,
      pp_receiverWalletAddress = Some receiver,
      pp_continueAccessToken = Some tok,
      pp_continueUri = Some ''continue'',
      pp_interactRef = Some ''ref'',
      pp_spendAmount = Some amt\<rparr>"



definition example_authorize_req :: authorize_req where
  "example_authorize_req =
     \<lparr>av_vendorId = Some ''vendor1'', av_spendingLimit = Some 50,
      av_redirectUrl = Some ''https://app.example/done''\<rparr>"




section \<open>Observing a run\<close>

text \<open>The calls made between two states of a run, and the properties of runs that the
  proofs below compose: a computation that leaves a part \<open>f\<close> of the server's state alone
  and makes only calls that satisfy \<open>P\<close>, and a computation that always rejects.\<close>

definition calls_of :: "('srv, 'w) st \<Rightarrow> ('srv, 'w) st \<Rightarrow> call list" where
  "calls_of s s' = drop (length (trace s)) (trace s')"

fun is_outgoing_create :: "call \<Rightarrow> bool" where
  "is_outgoing_create (OutgoingPaymentCreate _ _ _) = True"
| "is_outgoing_create _ = False"

fun is_grant_continue :: "call \<Rightarrow> bool" where
  "is_grant_continue (GrantContinue _ _ _) = True"
| "is_grant_continue _ = False"

fun is_incoming_create :: "call \<Rightarrow> bool" where
  "is_incoming_create (IncomingPaymentCreate _ _ _) = True"
| "is_incoming_create _ = False"



definition steps :: "('srv \<Rightarrow> 'x) \<Rightarrow> (call \<Rightarrow> bool) \<Rightarrow> ('a, 'srv, 'w) io \<Rightarrow> bool" where
  "steps f P m =
     (\<forall>s. f (server (snd (m s))) = f (server s)
          \<and> (\<exists>cs. trace (snd (m s)) = trace s @ cs \<and> list_all P cs))"

definition fails :: "('a, 'srv, 'w) io \<Rightarrow> bool" where
  "fails m = (\<forall>s. \<exists>e. fst (m s) = Inl e)"

section \<open>Facts about the client library's wrappers\<close>

lemma walletAddress_get_eq:
  "walletAddress_get net url s =
     ((case fst (net (WalletAddressGet url) (world s)) of
         Inl msg \<Rightarrow> Inl (OpenPaymentsError msg)
       | Inr (RWallet w) \<Rightarrow> Inr w
       | Inr _ \<Rightarrow> Inl malformed),
      s\<lparr>world := snd (net (WalletAddressGet url) (world s)),
        trace := trace s @ [WalletAddressGet url]\<rparr>)"
  by (simp add: walletAddress_get_def bind_def return_def throw_def ext_def
        split: sum.splits reply.splits)

lemma grant_continue_eq:
  "grant_continue net tok url ref s =
     ((case fst (net (GrantContinue tok url ref) (world s)) of
         Inl msg \<Rightarrow> Inl (OpenPaymentsError msg)
       | Inr (RGrant g) \<Rightarrow> Inr g
       | Inr _ \<Rightarrow> Inl malformed),
      s\<lparr>world := snd (net (GrantContinue tok url ref) (world s)),
        trace := trace s @ [GrantContinue tok url ref]\<rparr>)"
  by (simp add: grant_continue_def bind_def return_def throw_def ext_def
        split: sum.splits reply.splits)

lemma verifyInteractionHash_eq:
  "verifyInteractionHash pf net p s =
     ((case fst (net (WalletAddressGet (vp_walletAddressUrl p)) (world s)) of
         Inl msg \<Rightarrow> Inl (OpenPaymentsError msg)
       | Inr (RWallet w) \<Rightarrow>
           if calculatedHash pf (vp_clientNonce p) (vp_interactNonce p) (vp_interactRef p)
                (authServer w) \<noteq> vp_receivedHash p
           then Inl (Error ''Hash verification failed'') else Inr ()
       | Inr _ \<Rightarrow> Inl malformed),
      s\<lparr>world := snd (net (WalletAddressGet (vp_walletAddressUrl p)) (world s)),
        trace := trace s @ [WalletAddressGet (vp_walletAddressUrl p)]\<rparr>)"
  by (simp add: verifyInteractionHash_def walletAddress_get_eq bind_def return_def throw_def
        split: sum.splits reply.splits)

lemma continueGrant_trace:
  "trace (snd (continueGrant net tok url ref s)) = trace s @ [GrantContinue tok url (Some ref)]"
  by (simp add: continueGrant_def grant_continue_eq bind_def return_def throw_def
        split: sum.splits reply.splits)


section \<open>Composing runs\<close>

lemma bind_return [simp]: "bind (return a) f = f a"
  by (rule ext) (simp add: bind_def return_def)

lemma bind_throw [simp]: "bind (throw e) f = throw e"
  by (rule ext) (simp add: bind_def throw_def)

lemma snd_try_catch [simp]: "snd (try_catch m h s) = snd (m s)"
  by (simp add: try_catch_def split: prod.splits sum.splits)

lemma fst_try_catch:
  "fst (try_catch m h s) = (case fst (m s) of Inl e \<Rightarrow> h e | Inr r \<Rightarrow> r)"
  by (simp add: try_catch_def split: prod.splits sum.splits)

lemma steps_return [intro!, simp]: "steps f P (return a)"
  by (simp add: steps_def return_def)

lemma steps_throw [intro!, simp]: "steps f P (throw e)"
  by (simp add: steps_def throw_def)

lemma steps_bind [intro!]:
  assumes "steps f P m" and "\<And>a. steps f P (g a)"
  shows "steps f P (bind m g)"
  unfolding steps_def
proof
  fix s
  obtain r s1 where m: "m s = (r, s1)" by fastforce
  from assms(1) m obtain cs where 1: "f (server s1) = f (server s)"
      "trace s1 = trace s @ cs" "list_all P cs"
    by (auto simp: steps_def dest: spec[of _ s])
  show "f (server (snd (bind m g s))) = f (server s)
          \<and> (\<exists>cs. trace (snd (bind m g s)) = trace s @ cs \<and> list_all P cs)"
  proof (cases r)
    case (Inl e)
    with m 1 show ?thesis by (auto simp: bind_def)
  next
    case (Inr a)
    from assms(2)[of a] obtain cs' where 2: "f (server (snd (g a s1))) = f (server s1)"
      "trace (snd (g a s1)) = trace s1 @ cs'" "list_all P cs'"
      by (auto simp: steps_def dest: spec[of _ s1])
    with m 1 Inr show ?thesis by (auto simp: bind_def)
  qed
qed

lemma steps_ext [intro!]: "P c \<Longrightarrow> steps f P (ext net c)"
  by (simp add: steps_def ext_def)

lemma steps_modify [intro!]: "(\<And>srv. f (h srv) = f srv) \<Longrightarrow> steps f P (modify h)"
  by (simp add: steps_def modify_def)

lemma snd_catch_all [simp]: "snd (catch_all m e s) = snd (m s)"
  by (simp add: catch_all_def split: prod.splits sum.splits)

lemma steps_catch_all [intro!]: "steps f P m \<Longrightarrow> steps f P (catch_all m e)"
  by (simp add: steps_def)

lemma steps_case_prod [intro!]:
  "(\<And>a b. steps f P (g a b)) \<Longrightarrow> steps f P (case p of (a, b) \<Rightarrow> g a b)"
  by (cases p) simp

lemma stepsD:
  assumes "steps f P m"
  shows "f (server (snd (m s))) = f (server s)"
    and "list_all P (calls_of s (snd (m s)))"
  using assms by (auto simp: steps_def calls_of_def dest: spec[of _ s])

lemma fails_throw [intro!, simp]: "fails (throw e)"
  by (simp add: fails_def throw_def)

lemma fails_bind [intro!]: "(\<And>a. fails (g a)) \<Longrightarrow> fails (bind m g)"
  by (auto simp: fails_def bind_def split: prod.splits sum.splits)

lemma fails_case_prod [intro!]:
  "(\<And>a b. fails (g a b)) \<Longrightarrow> fails (case p of (a, b) \<Rightarrow> g a b)"
  by (cases p) simp

lemma steps_wrappers [intro!]:
  "P CreateAuthenticatedClient \<Longrightarrow> steps f P (getAuthenticatedClient net)"
  "P (WalletAddressGet url) \<Longrightarrow> steps f P (walletAddress_get net url)"
  "P (GrantRequest url body) \<Longrightarrow> steps f P (grant_request net url body)"
  "P (GrantContinue tok url ref) \<Longrightarrow> steps f P (grant_continue net tok url ref)"
  "P (TokenRotate tok url) \<Longrightarrow> steps f P (token_rotate net tok url)"
  "P (IncomingPaymentCreate url tok ia) \<Longrightarrow> steps f P (incomingPayment_create net url tok ia)"
  "P (QuoteCreate url tok qa) \<Longrightarrow> steps f P (quote_create net url tok qa)"
  "P (OutgoingPaymentCreate url tok oa) \<Longrightarrow> steps f P (outgoingPayment_create net url tok oa)"
  "P RandomUUID \<Longrightarrow> steps f P (randomUUID net)"
  "P (QRCodeToDataURL d) \<Longrightarrow> steps f P (QRCode_toDataURL net d)"
  unfolding getAuthenticatedClient_def createAuthenticatedClient_def walletAddress_get_def
    grant_request_def grant_continue_def token_rotate_def incomingPayment_create_def
    quote_create_def outgoingPayment_create_def randomUUID_def QRCode_toDataURL_def
  by (auto split: reply.splits)

lemma steps_access_token_of [intro!, simp]: "steps f P (access_token_of g)"
  by (simp add: access_token_of_def split: grant_response.splits)

lemma steps_getWalletAddressInfo [intro!]:
  "(\<And>url. P (WalletAddressGet url)) \<Longrightarrow> steps f P (getWalletAddressInfo net a)"
  unfolding getWalletAddressInfo_def Let_def by auto

lemma steps_createIncomingPayment [intro!]:
  "(\<And>url b. P (GrantRequest url b)) \<Longrightarrow> (\<And>url tok a. P (IncomingPaymentCreate url tok a))
     \<Longrightarrow> steps f P (createIncomingPayment net now v w)"
  unfolding createIncomingPayment_def by auto

lemma steps_createQuote [intro!]:
  "(\<And>url b. P (GrantRequest url b)) \<Longrightarrow> (\<And>url tok a. P (QuoteCreate url tok a))
     \<Longrightarrow> steps f P (createQuote net u w)"
  unfolding createQuote_def by auto

lemma steps_createOutgoingPaymentPendingGrant [intro!]:
  "(\<And>url b. P (GrantRequest url b)) \<Longrightarrow> P RandomUUID
     \<Longrightarrow> steps f P (createOutgoingPaymentPendingGrant net now i w)"
  unfolding createOutgoingPaymentPendingGrant_def by auto

lemma steps_createOutgoingPayment [intro!]:
  "(\<And>tok url r. P (GrantContinue tok url r)) \<Longrightarrow> (\<And>url tok a. P (OutgoingPaymentCreate url tok a))
     \<Longrightarrow> steps f P (createOutgoingPayment net i w)"
  unfolding createOutgoingPayment_def Let_def by auto

lemma steps_continue_unless_token [intro!]:
  assumes "\<And>tok url r. P (GrantContinue tok url r)"
      and "\<And>srv v. f (srv\<lparr>outgoingpaymentgrantaccessToken := v\<rparr>) = f srv"
  shows "steps f P (continue_unless_token net req)"
proof -
  let ?m = "bind (grant_continue net (field (pp_continueAccessToken req))
                (field (pp_continueUri req)) (pp_interactRef req)) (\<lambda>grant.
        bind (access_token_of grant) (\<lambda>v.
        bind (modify (\<lambda>srv. srv\<lparr>outgoingpaymentgrantaccessToken := Some v\<rparr>)) (\<lambda>_.
        return v)))"
  have 1: "steps f P ?m" using assms by auto
  have 2: "steps f P (return x :: (string, server_state, 'b) io)" for x by simp
  show ?thesis
    unfolding steps_def
  proof
    fix s
    show "f (server (snd (continue_unless_token net req s))) = f (server s) \<and>
           (\<exists>cs. trace (snd (continue_unless_token net req s)) = trace s @ cs \<and> list_all P cs)"
      using 1[unfolded steps_def, rule_format, of s] 2[unfolded steps_def, rule_format, of _ s]
      by (simp add: continue_unless_token_def)
  qed
qed

section \<open>The grant continuation runs only behind the hash check\<close>

text \<open>
  Claim C2. \<open>completeInstantPaySetup\<close> calls the grant continuation only after the
  interaction hash has been verified. Whenever a continuation call appears among the calls
  of a run, or the run returns a token, the cache held the entry, the wallet lookup
  answered, the received hash equals the digest computed from the cached nonces, the
  interaction reference and the authorization server of that wallet, and the calls of the
  run are the wallet lookup followed by the one continuation call. Whenever the received
  hash differs from that digest (as one computed with another authorization-server URL
  does, unless the digests coincide), the run rejects with "Hash verification failed" and
  its only call is the wallet lookup.
\<close>

theorem completeInstantPaySetup_continue_only_after_verified:
  assumes run: "completeInstantPaySetup pf net cache_get ident iref hash s = (r, s')"
  shows "((\<exists>tok uri ref. GrantContinue tok uri ref \<in> set (drop (length (trace s)) (trace s')))
            \<or> (\<exists>ti. r = Inr ti) \<longrightarrow>
            (\<exists>d w. cache_get ident = Some d
               \<and> fst (net (WalletAddressGet (ipd_walletAddressUrl d)) (world s)) = Inr (RWallet w)
               \<and> hash = calculatedHash pf (ipd_clientNonce d) (ipd_interactNonce d) iref
                          (authServer w)
               \<and> trace s' = trace s @ [WalletAddressGet (ipd_walletAddressUrl d),
                     GrantContinue (ipd_continueToken d) (ipd_continueUri d) (Some iref)]))
       \<and> (\<forall>d w. cache_get ident = Some d
               \<and> fst (net (WalletAddressGet (ipd_walletAddressUrl d)) (world s)) = Inr (RWallet w)
               \<and> hash \<noteq> calculatedHash pf (ipd_clientNonce d) (ipd_interactNonce d) iref
                          (authServer w)
             \<longrightarrow> r = Inl (Error ''Hash verification failed'')
               \<and> trace s' = trace s @ [WalletAddressGet (ipd_walletAddressUrl d)])"
proof (cases "cache_get ident")
  case None
  with run show ?thesis by (auto simp: completeInstantPaySetup_def throw_def)
next
  case (Some d)
  let ?p = "\<lparr>vp_interactRef = iref, vp_receivedHash = hash,
              vp_clientNonce = ipd_clientNonce d, vp_interactNonce = ipd_interactNonce d,
              vp_walletAddressUrl = ipd_walletAddressUrl d\<rparr>"
  let ?s1 = "s\<lparr>world := snd (net (WalletAddressGet (ipd_walletAddressUrl d)) (world s)),
        trace := trace s @ [WalletAddressGet (ipd_walletAddressUrl d)]\<rparr>"
  obtain r1 where v: "verifyInteractionHash pf net ?p s = (r1, ?s1)"
    by (simp add: verifyInteractionHash_eq)
  show ?thesis
  proof (cases r1)
    case (Inl e)
    with run Some v have "r = Inl e" "s' = ?s1"
      by (simp_all add: completeInstantPaySetup_def bind_def)
    moreover from v Inl have
      "\<forall>w. fst (net (WalletAddressGet (ipd_walletAddressUrl d)) (world s)) = Inr (RWallet w)
        \<longrightarrow> hash \<noteq> calculatedHash pf (ipd_clientNonce d) (ipd_interactNonce d) iref
               (authServer w)
          \<and> e = Error ''Hash verification failed''"
      by (auto simp: verifyInteractionHash_eq split: if_splits)
    ultimately show ?thesis using Some by auto
  next
    case (Inr u)
    with run Some v have c:
      "continueGrant net (ipd_continueToken d) (ipd_continueUri d) iref ?s1 = (r, s')"
      by (simp add: completeInstantPaySetup_def bind_def)
    have t: "trace s' = trace ?s1
               @ [GrantContinue (ipd_continueToken d) (ipd_continueUri d) (Some iref)]"
      using continueGrant_trace[of net "ipd_continueToken d" "ipd_continueUri d" iref ?s1] c
      by simp
    from v Inr obtain w where
      "fst (net (WalletAddressGet (ipd_walletAddressUrl d)) (world s)) = Inr (RWallet w)"
      "hash = calculatedHash pf (ipd_clientNonce d) (ipd_interactNonce d) iref (authServer w)"
      by (auto simp: verifyInteractionHash_eq split: sum.splits reply.splits if_splits)
    with t show ?thesis using Some by auto
  qed
qed

theorem completeInstantPaySetup_forged_hash_witness:
  "fst (completeInstantPaySetup example_platform example_net example_cache ''id-1'' ''ref''
          ''forged'' (start () 0))
     = Inl (Error ''Hash verification failed'')
   \<and> trace (snd (completeInstantPaySetup example_platform example_net example_cache ''id-1''
          ''ref'' ''forged'' (start () 0)))
     = [WalletAddressGet ''https://w.example/alice'']
   \<and> trace (snd (completeInstantPaySetup example_platform example_net example_cache ''id-1''
          ''ref'' (replicate 31 (CHR ''A'')) (start () 0)))
     = [WalletAddressGet ''https://w.example/alice'',
        GrantContinue ''ct'' ''continue'' (Some ''ref'')]"
proof -
  let ?d = "\<lparr>ipd_walletAddressUrl = ''https://w.example/alice'',
                 ipd_clientNonce = ''n1'', ipd_interactNonce = ''n2'',
                 ipd_continueUri = ''continue'', ipd_continueToken = ''ct''\<rparr>"
  let ?w = "example_wallet ''https://w.example/alice''"
  have c: "example_cache ''id-1'' = Some ?d" by (simp add: example_cache_def)
  have n: "fst (example_net (WalletAddressGet (ipd_walletAddressUrl ?d)) (world (start () 0)))
             = Inr (RWallet ?w)"
    by (simp add: example_net_def)
  have h: "''forged'' \<noteq> calculatedHash example_platform (ipd_clientNonce ?d)
             (ipd_interactNonce ?d) ''ref'' (authServer ?w)"
    by code_simp
  have "fst (completeInstantPaySetup example_platform example_net example_cache ''id-1''
          ''ref'' (replicate 31 (CHR ''A'')) (start () 0))
        = Inr \<lparr>ti_accessToken = ''access-ct'', ti_manageUrl = ''manage''\<rparr>"
    by code_simp
  then have ok: "\<exists>ti. fst (completeInstantPaySetup example_platform example_net example_cache
          ''id-1'' ''ref'' (replicate 31 (CHR ''A'')) (start () 0)) = Inr ti"
    by blast
  from completeInstantPaySetup_continue_only_after_verified
         [where pf = example_platform and net = example_net and cache_get = example_cache
            and ident = "''id-1''" and iref = "''ref''" and hash = "''forged''"
            and s = "start () 0",
          OF surjective_pairing, THEN conjunct2, rule_format, OF conjI[OF c conjI[OF n h]]]
  have 1: "fst (completeInstantPaySetup example_platform example_net example_cache ''id-1'' ''ref''
          ''forged'' (start () 0)) = Inl (Error ''Hash verification failed'')
     \<and> trace (snd (completeInstantPaySetup example_platform example_net example_cache ''id-1''
          ''ref'' ''forged'' (start () 0))) = [WalletAddressGet ''https://w.example/alice'']"
    by (simp add: start_def)
  from completeInstantPaySetup_continue_only_after_verified
         [where pf = example_platform and net = example_net and cache_get = example_cache
            and ident = "''id-1''" and iref = "''ref''"
            and hash = "replicate 31 (CHR ''A'')" and s = "start () 0",
          OF surjective_pairing, THEN conjunct1, rule_format, OF disjI2[OF ok]] c
  have 2: "trace (snd (completeInstantPaySetup example_platform example_net example_cache ''id-1''
          ''ref'' (replicate 31 (CHR ''A'')) (start () 0)))
     = [WalletAddressGet ''https://w.example/alice'',
        GrantContinue ''ct'' ''continue'' (Some ''ref'')]"
    by (auto simp: start_def)
  from 1 2 show ?thesis by blast
qed

section \<open>What the interaction hash check decides\<close>




section \<open>A payment request without the customer's wallet\<close>

lemma process_payment_no_customer_body:
  assumes "truthy (pp_receiverWalletAddress req)" "truthy (pp_continueAccessToken req)"
    "truthy (pp_continueUri req)" "truthy_num (pp_spendAmount req)"
    "\<not> truthy (pp_customerWalletAddress req)"
  shows "\<exists>B. process_payment net now req
            = try_catch B (\<lambda>err. (500, ErrorMessage ''Failed to process payment'' (message err)))
          \<and> fails B \<and> steps (\<lambda>_. ()) (\<lambda>c. \<not> is_outgoing_create c) B"
  apply (rule exI, intro conjI)
    apply (rule ext)
    apply (simp add: process_payment_def assms)
   apply (intro fails_bind fails_case_prod fails_throw)
  apply auto
  done


text \<open>
  Claim C10. A \<open>POST /api/process-payment\<close> request that carries
  \<open>receiverWalletAddress\<close>, \<open>continueAccessToken\<close>, \<open>continueUri\<close> and \<open>spendAmount\<close> but no
  \<open>customerWalletAddress\<close> (absent, or empty) passes the field validation, and the handler
  then always ends in its catch branch: the response is 500 "Failed to process payment",
  and no outgoing payment is created, whatever the payment network answers. On a network
  that answers every call, the failure is the dereference of the absent customer wallet
  details (the witness).
\<close>

theorem process_payment_without_customer_wallet:
  assumes "truthy (pp_receiverWalletAddress req)" "truthy (pp_continueAccessToken req)"
    "truthy (pp_continueUri req)" "truthy_num (pp_spendAmount req)"
    "\<not> truthy (pp_customerWalletAddress req)"
  shows "fst (fst (process_payment net now req s)) = 500
       \<and> (\<exists>m. snd (fst (process_payment net now req s))
                 = ErrorMessage ''Failed to process payment'' m)
       \<and> (\<forall>url tok a. OutgoingPaymentCreate url tok a
             \<notin> set (calls_of s (snd (process_payment net now req s))))"
proof -
  from process_payment_no_customer_body[OF assms, of net now]
  obtain B where B: "process_payment net now req
            = try_catch B (\<lambda>err. (500, ErrorMessage ''Failed to process payment'' (message err)))"
     "fails B" "steps (\<lambda>_. ()) (\<lambda>c. \<not> is_outgoing_create c) B"
    by blast
  from B(2) obtain e where e: "fst (B s) = Inl e" by (auto simp: fails_def)
  have 1: "fst (process_payment net now req s)
             = (500, ErrorMessage ''Failed to process payment'' (message e))"
    by (simp add: B(1) fst_try_catch e)
  have "list_all (\<lambda>c. \<not> is_outgoing_create c) (calls_of s (snd (B s)))"
    by (rule stepsD(2)[OF B(3)])
  then have 2: "\<forall>url tok a. OutgoingPaymentCreate url tok a
             \<notin> set (calls_of s (snd (process_payment net now req s)))"
    by (auto simp: B(1) list_all_iff)
  show ?thesis using 1 2 by simp
qed

theorem process_payment_without_customer_wallet_witness:
  "truthy (pp_receiverWalletAddress (example_payment None ''https://w.example/bob'' ''ct-A'' 5))
   \<and> truthy (pp_continueAccessToken (example_payment None ''https://w.example/bob'' ''ct-A'' 5))
   \<and> truthy (pp_continueUri (example_payment None ''https://w.example/bob'' ''ct-A'' 5))
   \<and> truthy_num (pp_spendAmount (example_payment None ''https://w.example/bob'' ''ct-A'' 5))
   \<and> \<not> truthy (pp_customerWalletAddress (example_payment None ''https://w.example/bob'' ''ct-A'' 5))
   \<and> fst (process_payment example_net 0 (example_payment None ''https://w.example/bob'' ''ct-A'' 5)
           (start example_ledger 0))
        = (500, ErrorMessage ''Failed to process payment''
                  ''Cannot read properties of undefined (reading resourceServer)'')
   \<and> (\<forall>url tok a. OutgoingPaymentCreate url tok a
         \<notin> set (calls_of (start example_ledger 0)
                 (snd (process_payment example_net 0
                    (example_payment None ''https://w.example/bob'' ''ct-A'' 5)
                    (start example_ledger 0)))))"
proof -
  let ?req = "example_payment None ''https://w.example/bob'' ''ct-A'' 5"
  have h: "truthy (pp_receiverWalletAddress ?req)" "truthy (pp_continueAccessToken ?req)"
    "truthy (pp_continueUri ?req)" "truthy_num (pp_spendAmount ?req)"
    "\<not> truthy (pp_customerWalletAddress ?req)"
    by (simp_all add: example_payment_def truthy_def truthy_num_def)
  have r: "fst (process_payment example_net 0 ?req (start example_ledger 0))
        = (500, ErrorMessage ''Failed to process payment''
                  ''Cannot read properties of undefined (reading resourceServer)'')"
    by code_simp
  from process_payment_without_customer_wallet[OF h, of example_net 0 "start example_ledger 0"] h r
  show ?thesis by blast
qed

section \<open>The daily-limit ledger\<close>





section \<open>Payment sessions are consumed once\<close>


lemma map_get_map_delete [simp]: "map_get (map_delete k m) k = None"
  by (induction m) (auto simp: map_get_def map_delete_def)








section \<open>The signed QR bundle\<close>

lemma without_with_signature [simp]: "without_signature (with_signature c sg) = c"
  by (simp add: without_signature_def with_signature_def)

lemma qr_signature_with_signature [simp]: "qr_signature (with_signature c sg) = sg"
  by (simp add: with_signature_def)











section \<open>The access token of \<open>/api/process-payment\<close>\<close>

text \<open>
  Claim C6 has the access token of an outgoing payment come from the continuation of the
  request's own grant. The handler keeps the token in the module-level variable
  \<open>outgoingpaymentgrantaccessToken\<close> and continues a grant only while that variable is
  falsy. After a first request for the grant with continuation token \<open>ct-A\<close>, a second
  request carrying the continuation token \<open>ct-B\<close> of another customer makes no
  continuation call and creates its outgoing payment with the token obtained for \<open>ct-A\<close>;
  the same second request on a fresh process continues \<open>ct-B\<close> and pays with its own token.
\<close>

theorem process_payment_token_shared_across_grants:
  "outgoingpaymentgrantaccessToken (server (snd (process_payment example_net 0
       (example_payment (Some ''https://w.example/alice'') ''https://w.example/bob'' ''ct-A'' 5)
       (start example_server 0))))
     = Some ''access-ct-A''
   \<and> filter (\<lambda>c. is_grant_continue c \<or> is_outgoing_create c)
       (calls_of
          (snd (process_payment example_net 0
             (example_payment (Some ''https://w.example/alice'') ''https://w.example/bob'' ''ct-A'' 5)
             (start example_server 0)))
          (snd (process_payment example_net 1
             (example_payment (Some ''https://w.example/carol'') ''https://w.example/bob'' ''ct-B'' 7)
             (snd (process_payment example_net 0
                (example_payment (Some ''https://w.example/alice'') ''https://w.example/bob''
                   ''ct-A'' 5)
                (start example_server 0))))))
     = [OutgoingPaymentCreate ''https://rs.example'' ''access-ct-A''
          \<lparr>oa_walletAddress = ''https://w.example/carol'', oa_quoteId = None,
           oa_incomingPayment = Some ''incoming-1'',
           oa_debitAmount = Some \<lparr>amt_value = 700, amt_assetCode = ''ZAR'', amt_assetScale = 2\<rparr>,
           oa_metadata = None\<rparr>]
   \<and> filter (\<lambda>c. is_grant_continue c \<or> is_outgoing_create c)
       (trace (snd (process_payment example_net 1
          (example_payment (Some ''https://w.example/carol'') ''https://w.example/bob'' ''ct-B'' 7)
          (start example_server 0))))
     = [GrantContinue ''ct-B'' ''continue'' (Some ''ref''),
        OutgoingPaymentCreate ''https://rs.example'' ''access-ct-B''
          \<lparr>oa_walletAddress = ''https://w.example/carol'', oa_quoteId = None,
           oa_incomingPayment = Some ''incoming-1'',
           oa_debitAmount = Some \<lparr>amt_value = 700, amt_assetCode = ''ZAR'', amt_assetScale = 2\<rparr>,
           oa_metadata = None\<rparr>]"
  by code_simp

theorem process_payment_token_shared_across_grants_witness:
  "outgoingpaymentgrantaccessToken (server (snd (process_payment example_net 0
       (example_payment (Some ''https://w.example/alice'') ''https://w.example/bob'' ''ct-A'' 5)
       (start example_server 0))))
     = Some ''access-ct-A''"
  by (rule process_payment_token_shared_across_grants[THEN conjunct1])

section \<open>Amounts and asset scales\<close>

text \<open>\<open>createVendorIncomingPayment\<close> of the \<open>OpenPayments\<close> class scales by the vendor
  wallet's asset scale, whatever the scale.\<close>

lemma createVendorIncomingPayment_scales:
  "list_all
     (\<lambda>c. case c of
             IncomingPaymentCreate url tok a \<Rightarrow>
               ia_incomingAmount a =
                 \<lparr>amt_value = amt * 10 ^ assetScale w, amt_assetCode = assetCode w,
                  amt_assetScale = assetScale w\<rparr>
           | _ \<Rightarrow> True)
     (calls_of s (snd (createVendorIncomingPayment net w amt descr s)))"
  by (rule stepsD(2)[where f = "\<lambda>x. x"])
     (auto simp: createVendorIncomingPayment_def)

text \<open>So does \<open>makeInstantPayment\<close>, for the incoming payment at the vendor and for the
  debit at the sender.\<close>

lemma makeInstantPayment_scales:
  "list_all
     (\<lambda>c. case c of
             OutgoingPaymentCreate url tok a \<Rightarrow>
               (\<exists>w :: wallet. url = wallet_id w
                  \<and> oa_debitAmount a =
                      Some \<lparr>amt_value = amt * 10 ^ assetScale w, amt_assetCode = assetCode w,
                            amt_assetScale = assetScale w\<rparr>)
           | IncomingPaymentCreate url tok a \<Rightarrow>
               (\<exists>w :: wallet. url = wallet_id w
                  \<and> ia_incomingAmount a =
                      \<lparr>amt_value = amt * 10 ^ assetScale w, amt_assetCode = assetCode w,
                       amt_assetScale = assetScale w\<rparr>)
           | _ \<Rightarrow> True)
     (calls_of s (snd (makeInstantPayment net tok manage vendor sender amt descr s)))"
  apply (rule stepsD(2)[where f = "\<lambda>x. x"])
  apply (auto simp: makeInstantPayment_def createVendorIncomingPayment_def)
  subgoal for w g by (rule exI[of _ w]) simp
  done

text \<open>
  Claim C7 has every amount scaled by the asset scale of the wallet it is for.
  \<open>/api/process-payment\<close> multiplies by 100 whatever the scale: for a spend of 5 between
  wallets of asset scale 3, the incoming payment and the debit both carry the value 500
  with scale 3, where \<open>5 * 10 ^ 3\<close> is 5000.
\<close>

theorem process_payment_scales_by_100:
  "assetScale (example_wallet ''https://w.example/eur'') = 3
   \<and> filter (\<lambda>c. is_incoming_create c \<or> is_outgoing_create c)
       (trace (snd (process_payment example_net 0
          (example_payment (Some ''https://w.example/eur'') ''https://w.example/eur'' ''ct-A'' 5)
          (start example_server 0))))
     = [IncomingPaymentCreate ''https://rs.example'' ''resource-token''
          \<lparr>ia_walletAddress = ''https://w.example/eur'',
           ia_incomingAmount = \<lparr>amt_value = 500, amt_assetCode = ''ZAR'', amt_assetScale = 3\<rparr>,
           ia_expiresAt = Some 1800000, ia_description = None\<rparr>,
        OutgoingPaymentCreate ''https://rs.example'' ''access-ct-A''
          \<lparr>oa_walletAddress = ''https://w.example/eur'', oa_quoteId = None,
           oa_incomingPayment = Some ''incoming-1'',
           oa_debitAmount = Some \<lparr>amt_value = 500, amt_assetCode = ''ZAR'', amt_assetScale = 3\<rparr>,
           oa_metadata = None\<rparr>]
   \<and> (5 :: int) * 10 ^ 3 = 5000"
  by code_simp

theorem process_payment_scales_by_100_witness:
  "assetScale (example_wallet ''https://w.example/eur'') = 3"
  by (rule process_payment_scales_by_100[THEN conjunct1])

section \<open>One live authorization per vendor and customer\<close>

text \<open>\<open>POST /api/customers/:customerId/grants\<close> of the second application rejects a
  request for a pair that already has an active grant, and leaves the state as it was.\<close>

lemma create_grant_rejects_duplicate:
  assumes "map_get (customers (server s)) cid = Some customer"
      and "cg_vendorId req = Some vid"
      and "map_get (vendors (server s)) vid = Some vendor"
      and "truthy_num (cg_dailyLimit req)" and "0 < num_field (cg_dailyLimit req)"
      and "g \<in> set (map_values (grants (server s)))"
      and "customerId g = cid" and "vendorId g = vid" and "status g = Active"
  shows "create_grant env net now cid req s
           = ((400, ErrorBody ''Active grant already exists for this vendor''), s)"
proof -
  have "existingGrant cid vid (server s) \<noteq> None"
    using assms(6-9) by (auto simp: existingGrant_def find_None_iff)
  with assms(1-5) show ?thesis
    by (simp add: create_grant_def try_catch_def return_def field_def)
qed

text \<open>
  Claim C9 has every operation that creates a CustomerGrant reject a second active grant
  for the same customer and vendor. \<open>POST /api/customers/:customerId/authorize-vendor\<close> of
  the first application makes no such check: the same request sent twice is answered 201
  twice and leaves two active grants for \<open>customer1\<close> and \<open>vendor1\<close>.
\<close>

theorem authorize_vendor_allows_duplicate:
  "fst (fst (authorize_vendor example_net 0 ''customer1'' example_authorize_req
               (start example_server 0))) = 201
   \<and> fst (fst (authorize_vendor example_net 1 ''customer1'' example_authorize_req
               (snd (authorize_vendor example_net 0 ''customer1'' example_authorize_req
                       (start example_server 0))))) = 201
   \<and> map (\<lambda>g. (grant_id g, customerId g, vendorId g, status g))
        (map_values (grants (server
           (snd (authorize_vendor example_net 1 ''customer1'' example_authorize_req
                  (snd (authorize_vendor example_net 0 ''customer1'' example_authorize_req
                          (start example_server 0))))))))
     = [(''uuid-xxxx'', ''customer1'', ''vendor1'', Active),
        (''uuid-xxxxxxxxx'', ''customer1'', ''vendor1'', Active)]"
  by code_simp

theorem authorize_vendor_allows_duplicate_witness:
  "fst (fst (authorize_vendor example_net 0 ''customer1'' example_authorize_req
               (start example_server 0))) = 201"
  by (rule authorize_vendor_allows_duplicate[THEN conjunct1])

end
